theory Spec2Isabelle
  imports Complex_Main
begin

section \<open>Floating-point values and one-dimensional arrays\<close>

text \<open>
  The script \<open>app35.py\<close> computes with numpy arrays of binary64 numbers. A value is
  modelled as a real number or one of the three special values of IEEE arithmetic, so that
  a division by zero is a value of the model (numpy returns \<open>inf\<close> or \<open>nan\<close> there and
  only prints a warning), not the \<open>0\<close> that HOL's total division gives.
\<close>

datatype npfloat = Fin real | PInf | NInf | NaN

text \<open>
  The largest binary64 number is \<open>(2^53 - 1) * 2^971\<close> and the smallest positive one is
  \<open>2^-1074\<close>. The result of an arithmetic operation on finite numbers overflows to an
  infinity when it lies beyond the largest number and underflows to zero when it is closer
  to zero than half the smallest positive number. Inside that range the result is the exact
  real number: rounding to 53 bits and the sign of zero are not modelled.
\<close>

definition max_float :: real where
  "max_float = (2 ^ 53 - 1) * 2 ^ 971"

definition min_float :: real where
  "min_float = 1 / 2 ^ 1074"

definition binary64 :: "real \<Rightarrow> npfloat" where
  "binary64 r =
     (if max_float < r then PInf
      else if r < - max_float then NInf
      else if \<bar>r\<bar> < min_float / 2 then Fin 0
      else Fin r)"

text \<open>\<open>np.isfinite\<close>.\<close>

fun is_finite :: "npfloat \<Rightarrow> bool" where
  "is_finite (Fin a) = True"
| "is_finite x = False"

fun fneg :: "npfloat \<Rightarrow> npfloat" where
  "fneg (Fin a) = Fin (- a)"
| "fneg PInf = NInf"
| "fneg NInf = PInf"
| "fneg NaN = NaN"

text \<open>An infinity multiplied by the finite number \<open>a\<close>.\<close>

definition scale_inf :: "npfloat \<Rightarrow> real \<Rightarrow> npfloat" where
  "scale_inf i a = (if a = 0 then NaN else if 0 < a then i else fneg i)"

fun fmul :: "npfloat \<Rightarrow> npfloat \<Rightarrow> npfloat" where
  "fmul (Fin a) (Fin b) = binary64 (a * b)"
| "fmul (Fin a) PInf = scale_inf PInf a"
| "fmul (Fin a) NInf = scale_inf NInf a"
| "fmul PInf (Fin b) = scale_inf PInf b"
| "fmul NInf (Fin b) = scale_inf NInf b"
| "fmul PInf PInf = PInf"
| "fmul PInf NInf = NInf"
| "fmul NInf PInf = NInf"
| "fmul NInf NInf = PInf"
| "fmul NaN y = NaN"
| "fmul x NaN = NaN"

fun fdiv :: "npfloat \<Rightarrow> npfloat \<Rightarrow> npfloat" where
  "fdiv (Fin a) (Fin b) =
     (if b = 0 then (if a = 0 then NaN else if 0 < a then PInf else NInf)
      else binary64 (a / b))"
| "fdiv (Fin a) PInf = Fin 0"
| "fdiv (Fin a) NInf = Fin 0"
| "fdiv PInf (Fin b) = (if 0 \<le> b then PInf else NInf)"
| "fdiv NInf (Fin b) = (if 0 \<le> b then NInf else PInf)"
| "fdiv PInf PInf = NaN"
| "fdiv PInf NInf = NaN"
| "fdiv NInf PInf = NaN"
| "fdiv NInf NInf = NaN"
| "fdiv NaN y = NaN"
| "fdiv x NaN = NaN"

fun fadd :: "npfloat \<Rightarrow> npfloat \<Rightarrow> npfloat" where
  "fadd (Fin a) (Fin b) = binary64 (a + b)"
| "fadd (Fin a) PInf = PInf"
| "fadd (Fin a) NInf = NInf"
| "fadd PInf (Fin b) = PInf"
| "fadd NInf (Fin b) = NInf"
| "fadd PInf PInf = PInf"
| "fadd NInf NInf = NInf"
| "fadd PInf NInf = NaN"
| "fadd NInf PInf = NaN"
| "fadd NaN y = NaN"
| "fadd x NaN = NaN"

definition fsub :: "npfloat \<Rightarrow> npfloat \<Rightarrow> npfloat" where
  "fsub x y = fadd x (fneg y)"

fun fabs :: "npfloat \<Rightarrow> npfloat" where
  "fabs (Fin a) = Fin \<bar>a\<bar>"
| "fabs PInf = PInf"
| "fabs NInf = PInf"
| "fabs NaN = NaN"

text \<open>
  \<open>np.exp\<close>: the exponential of a binary64 number is beyond the largest number when the
  argument is above \<open>log(2^1024)\<close>, about 709.7827, and below half the smallest positive
  number when the argument is below \<open>log(2^-1075)\<close>, about -745.1332.
\<close>

fun fexp :: "npfloat \<Rightarrow> npfloat" where
  "fexp (Fin a) =
     (if 709.782712893384 < a then PInf
      else if a < - 745.1332191019412 then Fin 0
      else Fin (exp a))"
| "fexp PInf = PInf"
| "fexp NInf = Fin 0"
| "fexp NaN = NaN"

text \<open>The comparison \<open>x > y\<close>; every comparison with \<open>nan\<close> is false.\<close>

fun fgt :: "npfloat \<Rightarrow> npfloat \<Rightarrow> bool" where
  "fgt (Fin a) (Fin b) = (b < a)"
| "fgt PInf (Fin b) = True"
| "fgt PInf NInf = True"
| "fgt (Fin a) NInf = True"
| "fgt x y = False"

text \<open>
  Python's builtin \<open>max\<close> over an array keeps the first element and replaces it by each
  later element that compares greater. The script calls it on arrays of 100 elements only.
\<close>

definition py_max :: "npfloat list \<Rightarrow> npfloat" where
  "py_max xs = foldl (\<lambda>m x. if fgt x m then x else m) (hd xs) (tl xs)"

datatype error = ValueError

text \<open>
  \<open>a * b\<close> on one-dimensional arrays: elementwise when the lengths agree, an array of one
  element is broadcast, any other pair of shapes raises \<open>ValueError\<close>.
\<close>

definition np_mul :: "npfloat list \<Rightarrow> npfloat list \<Rightarrow> error + npfloat list" where
  "np_mul xs ys =
     (if length xs = length ys then Inr (map2 fmul xs ys)
      else if length xs = 1 then Inr (map (fmul (hd xs)) ys)
      else if length ys = 1 then Inr (map (\<lambda>x. fmul x (hd ys)) xs)
      else Inl ValueError)"

text \<open>
  \<open>a *= b\<close>: the result is written into \<open>a\<close>, so only \<open>b\<close> may be broadcast.
\<close>

definition np_imul :: "npfloat list \<Rightarrow> npfloat list \<Rightarrow> error + npfloat list" where
  "np_imul xs ys =
     (if length xs = length ys then Inr (map2 fmul xs ys)
      else if length ys = 1 then Inr (map (\<lambda>x. fmul x (hd ys)) xs)
      else Inl ValueError)"

definition np_arange :: "nat \<Rightarrow> int list" where
  "np_arange n = map int [0..<n]"

definition np_float :: "int list \<Rightarrow> npfloat list" where
  "np_float ts = map (\<lambda>t. Fin (real_of_int t)) ts"

definition np_ones :: "nat \<Rightarrow> npfloat list" where
  "np_ones n = replicate n (Fin 1)"

text \<open>
  \<open>np.linspace(a, b, num)\<close>: \<open>num\<close> evenly spaced points from \<open>a\<close> to \<open>b\<close> inclusive. The
  script calls it with the constants \<open>(20, 60, 100)\<close> and \<open>(0, 1, 100)\<close> only.
\<close>

definition np_linspace :: "real \<Rightarrow> real \<Rightarrow> nat \<Rightarrow> npfloat list" where
  "np_linspace a b num = map (\<lambda>i. Fin (a + real i * ((b - a) / real (num - 1)))) [0..<num]"

text \<open>Array with scalar: \<open>xs * s\<close>, \<open>s * xs\<close>, \<open>xs / s\<close>, \<open>s + xs\<close>, \<open>xs - s\<close>, \<open>s - xs\<close>.\<close>

definition np_scale :: "npfloat \<Rightarrow> npfloat list \<Rightarrow> npfloat list" where
  "np_scale s xs = map (fmul s) xs"

definition np_times :: "npfloat list \<Rightarrow> npfloat \<Rightarrow> npfloat list" where
  "np_times xs s = map (\<lambda>x. fmul x s) xs"

definition np_over :: "npfloat list \<Rightarrow> npfloat \<Rightarrow> npfloat list" where
  "np_over xs s = map (\<lambda>x. fdiv x s) xs"

definition np_plus :: "npfloat \<Rightarrow> npfloat list \<Rightarrow> npfloat list" where
  "np_plus s xs = map (fadd s) xs"

definition np_minus :: "npfloat list \<Rightarrow> npfloat \<Rightarrow> npfloat list" where
  "np_minus xs s = map (\<lambda>x. fsub x s) xs"

definition np_rminus :: "npfloat \<Rightarrow> npfloat list \<Rightarrow> npfloat list" where
  "np_rminus s xs = map (fsub s) xs"

definition np_exp :: "npfloat list \<Rightarrow> npfloat list" where
  "np_exp xs = map fexp xs"

definition np_abs :: "npfloat list \<Rightarrow> npfloat list" where
  "np_abs xs = map fabs xs"

section \<open>Strings and parameter dictionaries\<close>

text \<open>\<open>s in t\<close> on strings: \<open>s\<close> occurs in \<open>t\<close> as a contiguous substring.\<close>

fun starts_with :: "string \<Rightarrow> string \<Rightarrow> bool" where
  "starts_with [] t = True"
| "starts_with (a # s) [] = False"
| "starts_with (a # s) (b # t) = (a = b \<and> starts_with s t)"

fun py_in :: "string \<Rightarrow> string \<Rightarrow> bool" where
  "py_in s [] = (s = [])"
| "py_in s (b # t) = (starts_with s (b # t) \<or> py_in s t)"

type_synonym params = "string \<rightharpoonup> real"

definition get :: "params \<Rightarrow> string \<Rightarrow> real \<Rightarrow> real" where
  "get parameters key dflt = (case parameters key of Some v \<Rightarrow> v | None \<Rightarrow> dflt)"

section \<open>The placeholder processes\<close>

definition hydraulic_flow :: "params \<Rightarrow> npfloat list" where
  "hydraulic_flow parameters =
     np_times (np_ones 100) (Fin (get parameters ''hydraulic_gradient'' 1.0))"

definition thermal_transport :: "params \<Rightarrow> npfloat list" where
  "thermal_transport parameters = np_linspace 20 60 100"

definition biodegradation :: "npfloat list \<Rightarrow> params \<Rightarrow> error + npfloat list" where
  "biodegradation concentration parameters =
     (let k = get parameters ''decay_rate'' 0.1
      in np_mul concentration (np_exp (np_scale (Fin (- k)) (np_float (np_arange 100)))))"

definition chemical_interactions :: "npfloat list \<Rightarrow> params \<Rightarrow> npfloat list" where
  "chemical_interactions concentration parameters =
     (let kd = get parameters ''kd'' 0.5
      in np_over concentration (fadd (Fin 1) (Fin kd)))"

text \<open>
  \<open>np.random.normal(0, 0.01, 100)\<close> returns 100 samples of the generator; \<open>rng i\<close> is the
  \<open>i\<close>-th sample drawn in this run.
\<close>

definition mechanical_response :: "(nat \<Rightarrow> real) \<Rightarrow> params \<Rightarrow> npfloat list" where
  "mechanical_response rng parameters = map (\<lambda>i. Fin (rng i)) [0..<100]"

definition gas_transport :: "params \<Rightarrow> npfloat list" where
  "gas_transport parameters = np_linspace 0 1 100"

section \<open>The run action\<close>

definition model_types :: "string list" where
  "model_types = [''Basic'', ''Hydro'', ''HT'', ''HTB'', ''HTBCM'', ''HTBCMG'']"

record dataframe =
  Time :: "int list"
  Concentration :: "npfloat list"

text \<open>Sequencing of statements that may raise.\<close>

definition and_then :: "error + 'a \<Rightarrow> ('a \<Rightarrow> error + 'b) \<Rightarrow> error + 'b" where
  "and_then r f = (case r of Inl e \<Rightarrow> Inl e | Inr v \<Rightarrow> f v)"

text \<open>
  One definition for each \<open>if\<close> block of the script, in the order of the script; each takes
  the concentration array the block reads and returns the array it leaves.
\<close>

definition basic_block :: "string \<Rightarrow> int list \<Rightarrow> npfloat list \<Rightarrow> error + npfloat list" where
  "basic_block model_type time concentration =
     (if model_type = ''Basic''
      then np_mul concentration (np_exp (np_scale (Fin (- 0.01)) (np_float time)))
      else Inr concentration)"

definition hydro_block :: "string \<Rightarrow> real \<Rightarrow> npfloat list \<Rightarrow> error + npfloat list" where
  "hydro_block model_type hydraulic_gradient concentration =
     (if py_in ''Hydro'' model_type
      then (let flow = hydraulic_flow [''hydraulic_gradient'' \<mapsto> hydraulic_gradient]
            in np_imul concentration (np_over flow (py_max flow)))
      else Inr concentration)"

definition thermal_block :: "string \<Rightarrow> npfloat list \<Rightarrow> error + npfloat list" where
  "thermal_block model_type concentration =
     (if py_in ''HT'' model_type
      then (let temperature = thermal_transport Map.empty
            in np_imul concentration
                 (np_plus (Fin 1) (np_scale (Fin 0.01) (np_minus temperature (Fin 20)))))
      else Inr concentration)"

definition bio_block :: "string \<Rightarrow> real \<Rightarrow> npfloat list \<Rightarrow> error + npfloat list" where
  "bio_block model_type k_decay concentration =
     (if py_in ''B'' model_type
      then biodegradation concentration [''decay_rate'' \<mapsto> k_decay]
      else Inr concentration)"

definition chem_block :: "string \<Rightarrow> real \<Rightarrow> npfloat list \<Rightarrow> error + npfloat list" where
  "chem_block model_type kd_value concentration =
     (if py_in ''C'' model_type
      then Inr (chemical_interactions concentration [''kd'' \<mapsto> kd_value])
      else Inr concentration)"

definition mech_block :: "string \<Rightarrow> (nat \<Rightarrow> real) \<Rightarrow> npfloat list \<Rightarrow> error + npfloat list" where
  "mech_block model_type rng concentration =
     (if py_in ''M'' model_type
      then (let deformation = mechanical_response rng Map.empty
            in np_imul concentration (np_rminus (Fin 1) (np_abs deformation)))
      else Inr concentration)"

definition gas_block :: "string \<Rightarrow> npfloat list \<Rightarrow> error + npfloat list" where
  "gas_block model_type concentration =
     (if py_in ''G'' model_type
      then (let gas = gas_transport Map.empty
            in np_imul concentration (np_rminus (Fin 1) (np_over gas (py_max gas))))
      else Inr concentration)"

text \<open>\<open>pd.DataFrame\<close> of two columns raises \<open>ValueError\<close> when their lengths differ.\<close>

definition make_frame :: "int list \<Rightarrow> npfloat list \<Rightarrow> error + dataframe" where
  "make_frame time concentration =
     (if length time = length concentration
      then Inr \<lparr>Time = time, Concentration = concentration\<rparr>
      else Inl ValueError)"

text \<open>
  The body of \<open>if st.sidebar.button("Run Simulation")\<close>, up to the data frame that both the
  chart and the download are made from. The arguments are the six inputs of the sidebar and
  the samples of the random generator; the four numeric inputs and the samples are finite
  binary64 numbers.
\<close>

definition run_simulation ::
  "string \<Rightarrow> nat \<Rightarrow> real \<Rightarrow> real \<Rightarrow> real \<Rightarrow> real \<Rightarrow> (nat \<Rightarrow> real) \<Rightarrow> error + dataframe" where
  "run_simulation model_type time_steps initial_conc hydraulic_gradient k_decay kd_value rng =
     (let time = np_arange time_steps;
          concentration = np_times (np_ones time_steps) (Fin initial_conc)
      in and_then (basic_block model_type time concentration) (\<lambda>concentration.
         and_then (hydro_block model_type hydraulic_gradient concentration) (\<lambda>concentration.
         and_then (thermal_block model_type concentration) (\<lambda>concentration.
         and_then (bio_block model_type k_decay concentration) (\<lambda>concentration.
         and_then (chem_block model_type kd_value concentration) (\<lambda>concentration.
         and_then (mech_block model_type rng concentration) (\<lambda>concentration.
         and_then (gas_block model_type concentration) (\<lambda>concentration.
         make_frame time concentration))))))))"

text \<open>A generator that returns the same sample \<open>d\<close> at every draw.\<close>

definition constant_noise :: "real \<Rightarrow> nat \<Rightarrow> real" where
  "constant_noise d i = d"

section \<open>Range of binary64, substring tests and arrays of the script\<close>

lemma float_bounds: "min_float / 2 \<le> 1 / 10 ^ 12" "10 ^ 12 \<le> max_float" "0 < max_float" "0 < min_float"
  by (simp_all add: min_float_def max_float_def)

lemma binary64_zero [simp]: "binary64 0 = Fin 0"
  using float_bounds by (simp add: binary64_def)

lemma binary64_mid: "1 / 10 ^ 12 \<le> \<bar>r\<bar> \<Longrightarrow> \<bar>r\<bar> \<le> 10 ^ 12 \<Longrightarrow> binary64 r = Fin r"
  using float_bounds by (auto simp: binary64_def)

lemma binary64_one [simp]: "binary64 1 = Fin 1"
  by (rule binary64_mid) simp_all

lemma binary64_not_nan [simp]: "binary64 r \<noteq> NaN"
  by (simp add: binary64_def)

lemma binary64_finite: "\<bar>r\<bar> \<le> max_float \<Longrightarrow> is_finite (binary64 r)"
  by (auto simp: binary64_def)

lemma binary64_idem: "fmul (binary64 r) (Fin 1) = binary64 r"
  using float_bounds by (auto simp: binary64_def scale_inf_def)

lemma fmul_nan_right [simp]: "fmul x NaN = NaN"
  by (cases x) simp_all

lemma fexp_mid: "- 745 \<le> a \<Longrightarrow> a \<le> 709 \<Longrightarrow> fexp (Fin a) = Fin (exp a)"
  by simp

lemma exp_ten_le: "exp (10::real) \<le> 10 ^ 5"
proof -
  have "exp (10::real) = exp (of_nat 10 * 1)" by simp
  also have "\<dots> = exp 1 ^ 10" by (rule exp_of_nat_mult)
  also have "\<dots> \<le> 3 ^ 10" by (rule power_mono) (simp_all add: exp_le)
  also have "\<dots> \<le> (10::real) ^ 5" by simp
  finally show ?thesis .
qed

lemma exp_neg_bounds:
  fixes x :: real
  assumes "0 \<le> x" and "x \<le> 10"
  shows "1 / 10 ^ 5 \<le> exp (- x)" and "exp (- x) \<le> 1"
proof -
  have "exp x \<le> exp 10" using assms(2) by simp
  then have le: "exp x \<le> 10 ^ 5" using exp_ten_le by linarith
  have pos: "0 < exp x" by simp
  have "1 / 10 ^ 5 \<le> 1 / exp x" using le pos by (simp add: frac_le)
  then show "1 / 10 ^ 5 \<le> exp (- x)" by (simp add: exp_minus inverse_eq_divide)
  show "exp (- x) \<le> 1" using assms(1) by simp
qed

lemma py_in_examples: "py_in ''B'' ''Basic''" "\<not> py_in ''Hydro'' ''HTBCMG''" "\<not> py_in ''HT'' ''Hydro''" "py_in ''HT'' ''HTBCMG''"
  "\<not> py_in ''C'' ''Basic''" "py_in ''Hydro'' ''Hydro''"
  by simp_all

lemma float_arange: "np_float (np_arange n) = map (\<lambda>i. Fin (real i)) [0..<n]"
  by (simp add: np_float_def np_arange_def)

lemma imul_upt: "np_imul (map h [0..<n]) (map g [0..<n]) = Inr (map (\<lambda>i. fmul (h i) (g i)) [0..<n])"
  by (simp add: np_imul_def zip_map_map zip_same_conv_map)

lemma mul_upt: "np_mul (map h [0..<n]) (map g [0..<n]) = Inr (map (\<lambda>i. fmul (h i) (g i)) [0..<n])"
  by (simp add: np_mul_def zip_map_map zip_same_conv_map)

lemma imul_mismatch: "length xs \<noteq> 100 \<Longrightarrow> np_imul xs (map g [0..<100]) = Inl ValueError"
  by (simp add: np_imul_def)

lemma as_upt: "length c = n \<Longrightarrow> map (\<lambda>i. c ! i) [0..<n] = c"
  using map_nth [of c] by simp

lemma initial: "np_times (np_ones n) (Fin c0) = map (\<lambda>i. binary64 c0) [0..<n]"
  by (simp add: np_times_def np_ones_def map_replicate_trivial)

lemma py_max_const: "0 < n \<Longrightarrow> py_max (map (\<lambda>i. x) [0..<n]) = x"
proof -
  have step: "foldl (\<lambda>m y. if fgt y m then y else m) x (replicate k x) = x" for k
    by (induction k) simp_all
  assume "0 < n"
  then obtain k where n: "n = Suc k" by (cases n) auto
  have "map (\<lambda>i. x) [0..<n] = replicate (Suc k) x" unfolding n by (rule map_replicate_trivial)
  then show ?thesis unfolding py_max_def by (simp add: step)
qed

lemma foldl_fgt_fin:
  "foldl (\<lambda>m x. if fgt x m then x else m) (Fin m) (map Fin rs) = Fin (foldl max m rs)"
proof (induction rs arbitrary: m)
  case Nil
  show ?case by simp
next
  case (Cons r rs)
  show ?case
  proof (cases "m < r")
    case True
    then have "max m r = r" by simp
    then show ?thesis using True Cons.IH [of r] by simp
  next
    case False
    then have "max m r = m" by simp
    then show ?thesis using False Cons.IH [of m] by simp
  qed
qed

lemma foldl_max_bound:
  fixes M :: real
  assumes "\<forall>r \<in> set rs. r \<le> M" and "m \<le> M" and "M \<in> set (m # rs)"
  shows "foldl max m rs = M"
  using assms
proof (induction rs arbitrary: m)
  case Nil
  then show ?case by simp
next
  case (Cons r rs)
  have le: "max m r \<le> M" using Cons.prems by simp
  have "M \<in> set (max m r # rs)"
  proof (cases "M \<in> set rs")
    case True
    then show ?thesis by simp
  next
    case False
    then have "M = m \<or> M = r" using Cons.prems(3) by auto
    then have "max m r = M" using Cons.prems(1,2) by (auto simp: max_def)
    then show ?thesis by simp
  qed
  then have "foldl max (max m r) rs = M" using Cons.IH [of "max m r"] Cons.prems(1) le by simp
  then show ?case by simp
qed

lemma py_max_upt:
  assumes "0 < n" and "\<forall>i < n. g i \<le> M" and "j < n" and "g j = M"
  shows "py_max (map (\<lambda>i. Fin (g i)) [0..<n]) = Fin M"
proof -
  have split: "[0..<n] = 0 # [1..<n]" using assms(1) by (simp add: upt_conv_Cons)
  have m: "map (\<lambda>i. Fin (g i)) [1..<n] = map Fin (map g [1..<n])" by simp
  have "foldl max (g 0) (map g [1..<n]) = M"
  proof (rule foldl_max_bound)
    show "\<forall>r \<in> set (map g [1..<n]). r \<le> M" using assms(2) by auto
    show "g 0 \<le> M" using assms(1,2) by simp
    show "M \<in> set (g 0 # map g [1..<n])"
    proof (cases j)
      case 0
      then show ?thesis using assms(4) by simp
    next
      case (Suc j')
      then have "j \<in> set [1..<n]" using assms(3) by simp
      then show ?thesis using assms(4) by force
    qed
  qed
  then show ?thesis
    unfolding py_max_def split by (simp only: list.map list.sel m foldl_fgt_fin)
qed

lemma hydraulic_flow_eq:
  "hydraulic_flow [''hydraulic_gradient'' \<mapsto> g] = map (\<lambda>i. binary64 g) [0..<100]"
  by (simp add: hydraulic_flow_def get_def np_times_def np_ones_def map_replicate_trivial)

lemma gas_eq: "gas_transport p = map (\<lambda>i. Fin (real i / 99)) [0..<100]"
  by (simp add: gas_transport_def np_linspace_def)

lemma py_max_gas: "py_max (map (\<lambda>i. Fin (real i / 99)) [0..<100]) = Fin 1"
  by (rule py_max_upt [where j = 99]) simp_all

lemma thermal_eq: "thermal_transport p = map (\<lambda>i. Fin (20 + real i * (40 / 99))) [0..<100]"
  by (simp add: thermal_transport_def np_linspace_def)

section \<open>The blocks of the run action on arrays of 100 elements\<close>

lemma binary64_small: "r = 0 \<or> (1 / 10 ^ 12 \<le> \<bar>r\<bar> \<and> \<bar>r\<bar> \<le> 10 ^ 12) \<Longrightarrow> binary64 r = Fin r"
  using binary64_mid [of r] by auto

lemma and_then_Inr [simp]: "and_then (Inr v) f = f v"
  by (simp add: and_then_def)

lemma and_then_Inl [simp]: "and_then (Inl e) f = Inl e"
  by (simp add: and_then_def)

lemma thermal_point:
  assumes "i < 100"
  shows "fadd (Fin 1) (fmul (Fin 0.01) (fsub (Fin (20 + real i * (40 / 99))) (Fin 20)))
         = Fin (1 + 0.01 * (20 + real i * (40 / 99) - 20))"
proof -
  let ?d = "real i * (40 / 99)"
  have i: "real i \<le> 99" using assms by simp
  have z: "i = 0 \<or> 1 \<le> real i" by (cases i) simp_all
  have d: "fsub (Fin (20 + ?d)) (Fin 20) = Fin ?d"
  proof -
    have "binary64 ?d = Fin ?d" by (rule binary64_small) (use i z in auto)
    then show ?thesis by (simp add: fsub_def)
  qed
  have m: "fmul (Fin 0.01) (Fin ?d) = Fin (0.01 * ?d)"
  proof -
    have "binary64 (0.01 * ?d) = Fin (0.01 * ?d)" by (rule binary64_small) (use i z in auto)
    then show ?thesis by simp
  qed
  have a: "fadd (Fin 1) (Fin (0.01 * ?d)) = Fin (1 + 0.01 * ?d)"
  proof -
    have "binary64 (1 + 0.01 * ?d) = Fin (1 + 0.01 * ?d)" by (rule binary64_small) (use i z in auto)
    then show ?thesis by simp
  qed
  show ?thesis by (simp only: d m a) simp
qed

lemma gas_point:
  assumes "i < 100"
  shows "fsub (Fin 1) (fdiv (Fin (real i / 99)) (Fin 1)) = Fin (1 - real i / 99)"
proof -
  have i: "real i \<le> 99" using assms by simp
  have z: "i = 0 \<or> 1 \<le> real i" by (cases i) simp_all
  have w: "i = 99 \<or> real i \<le> 98" using assms by (cases "i = 99") auto
  have q: "fdiv (Fin (real i / 99)) (Fin 1) = Fin (real i / 99)"
  proof -
    have "binary64 (real i / 99) = Fin (real i / 99)" by (rule binary64_small) (use i z in auto)
    then show ?thesis by simp
  qed
  have "binary64 (1 - real i / 99) = Fin (1 - real i / 99)" by (rule binary64_small) (use i w in auto)
  then have s: "fsub (Fin 1) (Fin (real i / 99)) = Fin (1 - real i / 99)" by (simp add: fsub_def)
  show ?thesis by (simp only: q s)
qed

lemma decay_array:
  "np_exp (np_scale (Fin a) (np_float (np_arange n))) = map (\<lambda>i. fexp (binary64 (a * real i))) [0..<n]"
  by (simp add: np_exp_def np_scale_def float_arange)

lemma basic_block_basic:
  "basic_block ''Basic'' (np_arange n) (map h [0..<n]) =
     Inr (map (\<lambda>i. fmul (h i) (fexp (binary64 (- 0.01 * real i)))) [0..<n])"
  unfolding basic_block_def by (simp add: decay_array mul_upt)

lemma basic_block_other: "mt \<noteq> ''Basic'' \<Longrightarrow> basic_block mt t c = Inr c"
  by (simp add: basic_block_def)

lemma hydro_factor:
  "np_over (hydraulic_flow [''hydraulic_gradient'' \<mapsto> g])
     (py_max (hydraulic_flow [''hydraulic_gradient'' \<mapsto> g]))
   = map (\<lambda>i. fdiv (binary64 g) (binary64 g)) [0..<100]"
  by (simp only: hydraulic_flow_eq) (simp add: py_max_const np_over_def)

lemma thermal_factor:
  "np_plus (Fin 1) (np_scale (Fin 0.01) (np_minus (thermal_transport p) (Fin 20))) =
     map (\<lambda>i. Fin (1 + 0.01 * (20 + real i * (40 / 99) - 20))) [0..<100]"
proof -
  have "np_plus (Fin 1) (np_scale (Fin 0.01) (np_minus (thermal_transport p) (Fin 20))) =
     map (\<lambda>i. fadd (Fin 1) (fmul (Fin 0.01) (fsub (Fin (20 + real i * (40 / 99))) (Fin 20)))) [0..<100]"
    by (simp only: thermal_eq np_plus_def np_scale_def np_minus_def map_map o_def)
  also have "\<dots> = map (\<lambda>i. Fin (1 + 0.01 * (20 + real i * (40 / 99) - 20))) [0..<100]"
    by (rule map_cong [OF refl], rule thermal_point) simp
  finally show ?thesis .
qed

lemma mech_factor:
  "np_rminus (Fin 1) (np_abs (mechanical_response rng p)) = map (\<lambda>i. binary64 (1 - \<bar>rng i\<bar>)) [0..<100]"
  by (simp add: np_rminus_def np_abs_def mechanical_response_def fsub_def)

lemma gas_factor:
  "np_rminus (Fin 1) (np_over (gas_transport p) (py_max (gas_transport p))) =
     map (\<lambda>i. Fin (1 - real i / 99)) [0..<100]"
proof -
  have "np_rminus (Fin 1) (np_over (gas_transport p) (py_max (gas_transport p))) =
     map (\<lambda>i. fsub (Fin 1) (fdiv (Fin (real i / 99)) (Fin 1))) [0..<100]"
    by (simp only: gas_eq py_max_gas np_rminus_def np_over_def map_map o_def)
  also have "\<dots> = map (\<lambda>i. Fin (1 - real i / 99)) [0..<100]"
    by (rule map_cong [OF refl], rule gas_point) simp
  finally show ?thesis .
qed

lemma hydro_block_on:
  "py_in ''Hydro'' mt \<Longrightarrow> hydro_block mt g (map h [0..<100]) =
     Inr (map (\<lambda>i. fmul (h i) (fdiv (binary64 g) (binary64 g))) [0..<100])"
  unfolding hydro_block_def Let_def by (simp only: hydro_factor imul_upt if_True)

lemma thermal_block_on:
  "py_in ''HT'' mt \<Longrightarrow> thermal_block mt (map h [0..<100]) =
     Inr (map (\<lambda>i. fmul (h i) (Fin (1 + 0.01 * (20 + real i * (40 / 99) - 20)))) [0..<100])"
  unfolding thermal_block_def Let_def by (simp only: thermal_factor imul_upt if_True)

lemma biodegradation_upt:
  "biodegradation (map h [0..<100]) [''decay_rate'' \<mapsto> k] =
     Inr (map (\<lambda>i. fmul (h i) (fexp (binary64 (- k * real i)))) [0..<100])"
proof -
  have "get [''decay_rate'' \<mapsto> k] ''decay_rate'' 0.1 = k" by (simp add: get_def)
  then show ?thesis unfolding biodegradation_def Let_def by (simp only: decay_array mul_upt)
qed

lemma bio_block_on:
  "py_in ''B'' mt \<Longrightarrow> bio_block mt k (map h [0..<100]) =
     Inr (map (\<lambda>i. fmul (h i) (fexp (binary64 (- k * real i)))) [0..<100])"
  unfolding bio_block_def by (simp only: biodegradation_upt if_True)

lemma chem_block_on:
  "py_in ''C'' mt \<Longrightarrow> chem_block mt kd (map h [0..<n]) =
     Inr (map (\<lambda>i. fdiv (h i) (binary64 (1 + kd))) [0..<n])"
  by (simp add: chem_block_def chemical_interactions_def get_def np_over_def)

lemma mech_block_on:
  "py_in ''M'' mt \<Longrightarrow> mech_block mt rng (map h [0..<100]) =
     Inr (map (\<lambda>i. fmul (h i) (binary64 (1 - \<bar>rng i\<bar>))) [0..<100])"
  unfolding mech_block_def Let_def by (simp only: mech_factor imul_upt if_True)

lemma gas_block_on:
  "py_in ''G'' mt \<Longrightarrow> gas_block mt (map h [0..<100]) =
     Inr (map (\<lambda>i. fmul (h i) (Fin (1 - real i / 99))) [0..<100])"
  unfolding gas_block_def Let_def by (simp only: gas_factor imul_upt if_True)

lemma blocks_off:
  "\<not> py_in ''Hydro'' mt \<Longrightarrow> hydro_block mt g c = Inr c"
  "\<not> py_in ''HT'' mt \<Longrightarrow> thermal_block mt c = Inr c"
  "\<not> py_in ''B'' mt \<Longrightarrow> bio_block mt k c = Inr c"
  "\<not> py_in ''C'' mt \<Longrightarrow> chem_block mt kd c = Inr c"
  "\<not> py_in ''M'' mt \<Longrightarrow> mech_block mt rng c = Inr c"
  "\<not> py_in ''G'' mt \<Longrightarrow> gas_block mt c = Inr c"
  by (simp_all add: hydro_block_def thermal_block_def bio_block_def chem_block_def
      mech_block_def gas_block_def)

lemma make_frame_upt:
  "make_frame (np_arange n) (map h [0..<n]) = Inr \<lparr>Time = np_arange n, Concentration = map h [0..<n]\<rparr>"
  by (simp add: make_frame_def np_arange_def)

text \<open>The result of a run with 100 steps, for each model type of the selector.\<close>

lemma run_Basic_100:
  "run_simulation ''Basic'' 100 c0 g k kd rng =
     Inr \<lparr>Time = np_arange 100,
          Concentration = map (\<lambda>i. fmul (fmul (binary64 c0) (fexp (binary64 (- 0.01 * real i))))
                                     (fexp (binary64 (- k * real i)))) [0..<100]\<rparr>"
  unfolding run_simulation_def Let_def
  by (simp add: initial basic_block_basic blocks_off bio_block_on make_frame_upt)

lemma run_Hydro_100:
  "run_simulation ''Hydro'' 100 c0 g k kd rng =
     Inr \<lparr>Time = np_arange 100,
          Concentration = map (\<lambda>i. fmul (binary64 c0) (fdiv (binary64 g) (binary64 g))) [0..<100]\<rparr>"
  unfolding run_simulation_def Let_def
  by (simp add: initial basic_block_other blocks_off hydro_block_on make_frame_upt)

lemma run_HT_100:
  "run_simulation ''HT'' 100 c0 g k kd rng =
     Inr \<lparr>Time = np_arange 100,
          Concentration = map (\<lambda>i. fmul (binary64 c0) (Fin (1 + 0.01 * (20 + real i * (40 / 99) - 20)))) [0..<100]\<rparr>"
  unfolding run_simulation_def Let_def
  by (simp add: initial basic_block_other blocks_off thermal_block_on make_frame_upt)

lemma run_HTB_100:
  "run_simulation ''HTB'' 100 c0 g k kd rng =
     Inr \<lparr>Time = np_arange 100,
          Concentration = map (\<lambda>i. fmul (fmul (binary64 c0) (Fin (1 + 0.01 * (20 + real i * (40 / 99) - 20))))
                                     (fexp (binary64 (- k * real i)))) [0..<100]\<rparr>"
  unfolding run_simulation_def Let_def
  by (simp add: initial basic_block_other blocks_off thermal_block_on bio_block_on make_frame_upt)

lemma run_HTBCM_100:
  "run_simulation ''HTBCM'' 100 c0 g k kd rng =
     Inr \<lparr>Time = np_arange 100,
          Concentration = map (\<lambda>i. fmul (fdiv (fmul (fmul (binary64 c0) (Fin (1 + 0.01 * (20 + real i * (40 / 99) - 20))))
                                                 (fexp (binary64 (- k * real i))))
                                           (binary64 (1 + kd)))
                                     (binary64 (1 - \<bar>rng i\<bar>))) [0..<100]\<rparr>"
  unfolding run_simulation_def Let_def
  by (simp add: initial basic_block_other blocks_off thermal_block_on bio_block_on chem_block_on
      mech_block_on make_frame_upt)

lemma run_HTBCMG_100:
  "run_simulation ''HTBCMG'' 100 c0 g k kd rng =
     Inr \<lparr>Time = np_arange 100,
          Concentration = map (\<lambda>i. fmul (fmul (fdiv (fmul (fmul (binary64 c0) (Fin (1 + 0.01 * (20 + real i * (40 / 99) - 20))))
                                                 (fexp (binary64 (- k * real i))))
                                           (binary64 (1 + kd)))
                                     (binary64 (1 - \<bar>rng i\<bar>))) (Fin (1 - real i / 99))) [0..<100]\<rparr>"
  unfolding run_simulation_def Let_def
  by (simp add: initial basic_block_other blocks_off thermal_block_on bio_block_on chem_block_on
      mech_block_on gas_block_on make_frame_upt)

section \<open>Step counts other than 100\<close>

lemma mul_mismatch:
  "length xs \<noteq> 100 \<Longrightarrow> length xs \<noteq> 1 \<Longrightarrow> np_mul xs (map g [0..<100]) = Inl ValueError"
  by (simp add: np_mul_def)

lemma mul_broadcast_length:
  "length xs = 1 \<Longrightarrow> \<exists>ys. np_mul xs (map g [0..<100]) = Inr ys \<and> length ys = 100"
  by (simp add: np_mul_def)

lemma hydro_block_mismatch:
  "py_in ''Hydro'' mt \<Longrightarrow> length c \<noteq> 100 \<Longrightarrow> hydro_block mt g c = Inl ValueError"
  unfolding hydro_block_def Let_def by (simp only: hydro_factor) (simp add: imul_mismatch)

lemma thermal_block_mismatch:
  "py_in ''HT'' mt \<Longrightarrow> length c \<noteq> 100 \<Longrightarrow> thermal_block mt c = Inl ValueError"
  unfolding thermal_block_def Let_def by (simp only: thermal_factor) (simp add: imul_mismatch)

lemma bio_block_as_mul:
  assumes "py_in ''B'' mt"
  shows "bio_block mt k c = np_mul c (map (\<lambda>i. fexp (binary64 (- k * real i))) [0..<100])"
proof -
  have "get [''decay_rate'' \<mapsto> k] ''decay_rate'' 0.1 = k" by (simp add: get_def)
  then show ?thesis
    using assms unfolding bio_block_def biodegradation_def Let_def by (simp only: decay_array if_True)
qed

lemma bio_block_mismatch:
  assumes "py_in ''B'' mt" and "length c \<noteq> 100"
  shows "bio_block mt k c = Inl ValueError \<or> (\<exists>c'. bio_block mt k c = Inr c' \<and> length c' = 100)"
proof (cases "length c = 1")
  case True
  then show ?thesis using mul_broadcast_length [of c] bio_block_as_mul [OF assms(1)] by simp
next
  case False
  then show ?thesis using mul_mismatch [of c] assms(2) bio_block_as_mul [OF assms(1)] by simp
qed

lemma run_Basic_mismatch:
  assumes "n \<noteq> 100"
  shows "run_simulation ''Basic'' n c0 g k kd rng = Inl ValueError"
proof -
  let ?c = "map (\<lambda>i. fmul (binary64 c0) (fexp (binary64 (- 0.01 * real i)))) [0..<n]"
  have len: "length ?c \<noteq> 100" using assms by simp
  have b: "py_in ''B'' ''Basic''" by simp
  have run: "run_simulation ''Basic'' n c0 g k kd rng =
      and_then (bio_block ''Basic'' k ?c) (make_frame (np_arange n))"
    unfolding run_simulation_def Let_def
    by (simp add: initial basic_block_basic blocks_off)
  from bio_block_mismatch [OF b len, of k] show ?thesis
  proof
    assume "bio_block ''Basic'' k ?c = Inl ValueError"
    then show ?thesis by (simp only: run and_then_Inl)
  next
    assume "\<exists>c'. bio_block ''Basic'' k ?c = Inr c' \<and> length c' = 100"
    then obtain c' where c': "bio_block ''Basic'' k ?c = Inr c'" "length c' = 100" by blast
    have "make_frame (np_arange n) c' = Inl ValueError"
      using assms c'(2) by (simp add: make_frame_def np_arange_def)
    then show ?thesis by (simp only: run c'(1) and_then_Inr)
  qed
qed

lemma run_Hydro_mismatch:
  "n \<noteq> 100 \<Longrightarrow> run_simulation ''Hydro'' n c0 g k kd rng = Inl ValueError"
  unfolding run_simulation_def Let_def
  by (simp add: initial basic_block_other hydro_block_mismatch)

lemma run_HT_mismatch:
  "py_in ''HT'' mt \<Longrightarrow> \<not> py_in ''Hydro'' mt \<Longrightarrow> mt \<noteq> ''Basic'' \<Longrightarrow> n \<noteq> 100 \<Longrightarrow>
     run_simulation mt n c0 g k kd rng = Inl ValueError"
  unfolding run_simulation_def Let_def
  by (simp add: initial basic_block_other blocks_off thermal_block_mismatch)

lemma run_mismatch:
  assumes "mt \<in> set model_types" and "n \<noteq> 100"
  shows "run_simulation mt n c0 g k kd rng = Inl ValueError"
proof -
  from assms(1) consider "mt = ''Basic''" | "mt = ''Hydro''" | "mt = ''HT''" | "mt = ''HTB''"
    | "mt = ''HTBCM''" | "mt = ''HTBCMG''"
    by (auto simp: model_types_def)
  then show ?thesis
  proof cases
    case 1 then show ?thesis using run_Basic_mismatch [OF assms(2)] by simp
  next
    case 2 then show ?thesis using run_Hydro_mismatch [OF assms(2)] by simp
  next
    case 3 then show ?thesis using run_HT_mismatch [of mt, OF _ _ _ assms(2)] by simp
  next
    case 4 then show ?thesis using run_HT_mismatch [of mt, OF _ _ _ assms(2)] by simp
  next
    case 5 then show ?thesis using run_HT_mismatch [of mt, OF _ _ _ assms(2)] by simp
  next
    case 6 then show ?thesis using run_HT_mismatch [of mt, OF _ _ _ assms(2)] by simp
  qed
qed

lemma hydro_factor_zero:
  "np_over (hydraulic_flow [''hydraulic_gradient'' \<mapsto> 0])
     (py_max (hydraulic_flow [''hydraulic_gradient'' \<mapsto> 0])) = replicate 100 NaN"
  by (simp only: hydro_factor) (simp add: map_replicate_trivial)

lemma last_upt_100: "last (map f [0..<100]) = f 99"
  by (simp add: last_map)

lemma fmul_fin:
  "1 / 10 ^ 12 \<le> \<bar>a * b\<bar> \<Longrightarrow> \<bar>a * b\<bar> \<le> 10 ^ 12 \<Longrightarrow> fmul (Fin a) (Fin b) = Fin (a * b)"
  by (simp add: binary64_mid)

lemma fdiv_fin:
  "b \<noteq> 0 \<Longrightarrow> 1 / 10 ^ 12 \<le> \<bar>a / b\<bar> \<Longrightarrow> \<bar>a / b\<bar> \<le> 10 ^ 12 \<Longrightarrow> fdiv (Fin a) (Fin b) = Fin (a / b)"
  by (simp add: binary64_mid)

lemma abs_range:
  fixes x :: real
  assumes "lo \<le> x" and "x \<le> hi" and "1 / 10 ^ 12 \<le> lo" and "hi \<le> 10 ^ 12"
  shows "1 / 10 ^ 12 \<le> \<bar>x\<bar>" and "\<bar>x\<bar> \<le> 10 ^ 12"
proof -
  have p: "(0::real) < 1 / 10 ^ 12" by simp
  have lox: "1 / 10 ^ 12 \<le> x" using assms(3) assms(1) by (rule order_trans)
  have "0 < x" using p lox by (rule less_le_trans)
  then have ax: "\<bar>x\<bar> = x" by (rule abs_of_pos)
  have hix: "x \<le> 10 ^ 12" using assms(2) assms(4) by (rule order_trans)
  show "1 / 10 ^ 12 \<le> \<bar>x\<bar>" unfolding ax by (rule lox)
  show "\<bar>x\<bar> \<le> 10 ^ 12" unfolding ax by (rule hix)
qed

lemma fmul_range:
  assumes "lo \<le> a * b" and "a * b \<le> hi" and "1 / 10 ^ 12 \<le> lo" and "hi \<le> 10 ^ 12"
  shows "fmul (Fin a) (Fin b) = Fin (a * b)"
  by (rule fmul_fin) (rule abs_range [OF assms])+

lemma fdiv_range:
  assumes "b \<noteq> 0" and "lo \<le> a / b" and "a / b \<le> hi" and "1 / 10 ^ 12 \<le> lo" and "hi \<le> 10 ^ 12"
  shows "fdiv (Fin a) (Fin b) = Fin (a / b)"
  by (rule fdiv_fin [OF assms(1)]) (rule abs_range [OF assms(2-5)])+

lemma decay_point:
  assumes "i < 100" and "1 / 100 \<le> a" and "a \<le> 1 / 10"
  shows "fexp (binary64 (- a * real i)) = Fin (exp (- a * real i))"
    and "1 / 10 ^ 5 \<le> exp (- a * real i)" and "exp (- a * real i) \<le> 1"
proof -
  have i: "real i \<le> 99" using assms(1) by simp
  have a0: "0 \<le> a" using assms(2) by simp
  have up: "a * real i \<le> 1 / 10 * 99" using a0 assms(3) i by (intro mult_mono) simp_all
  have lo: "0 \<le> a * real i" using a0 by simp
  have b: "binary64 (- a * real i) = Fin (- a * real i)"
  proof (cases i)
    case 0
    then show ?thesis by simp
  next
    case (Suc j)
    then have "1 \<le> real i" by simp
    then have "1 / 100 * 1 \<le> a * real i" using assms(2) by (intro mult_mono) simp_all
    then show ?thesis using up by (intro binary64_small) simp
  qed
  show "fexp (binary64 (- a * real i)) = Fin (exp (- a * real i))"
    unfolding b using up lo by simp
  show "1 / 10 ^ 5 \<le> exp (- a * real i)" using exp_neg_bounds(1) [of "a * real i"] up lo by simp
  show "exp (- a * real i) \<le> 1" using lo by simp
qed

lemma basic_point:
  assumes "i < 100"
  shows "fmul (fmul (binary64 100) (fexp (binary64 (- 0.01 * real i)))) (fexp (binary64 (- 0.1 * real i)))
         = Fin (100 * exp (- 0.01 * real i) * exp (- 0.1 * real i))"
proof -
  let ?e1 = "exp (- 0.01 * real i)" and ?e2 = "exp (- 0.1 * real i)"
  note d1 = decay_point [OF assms, of "0.01"] and d2 = decay_point [OF assms, of "0.1"]
  have e1: "1 / 10 ^ 5 \<le> ?e1" "?e1 \<le> 1" using d1(2,3) by simp_all
  have e2: "1 / 10 ^ 5 \<le> ?e2" "?e2 \<le> 1" using d2(2,3) by simp_all
  have f1: "fexp (binary64 (- 0.01 * real i)) = Fin ?e1" using d1(1) by simp
  have f2: "fexp (binary64 (- 0.1 * real i)) = Fin ?e2" using d2(1) by simp
  have c: "binary64 100 = Fin 100" by (rule binary64_mid) simp_all
  have m1: "fmul (Fin 100) (Fin ?e1) = Fin (100 * ?e1)"
  proof (rule fmul_range)
    show "100 * (1 / 10 ^ 5) \<le> 100 * ?e1" using e1(1) by (intro mult_left_mono) simp_all
    show "100 * ?e1 \<le> 100 * 1" using e1(2) by (intro mult_left_mono) simp_all
  qed simp_all
  have p: "1 / 10 ^ 5 * (1 / 10 ^ 5) \<le> ?e1 * ?e2" using e1(1) e2(1) by (intro mult_mono) simp_all
  have q: "?e1 * ?e2 \<le> 1 * 1" using e1 e2 by (intro mult_mono) simp_all
  have m2: "fmul (Fin (100 * ?e1)) (Fin ?e2) = Fin (100 * ?e1 * ?e2)"
  proof (rule fmul_range)
    have "100 * (1 / 10 ^ 5 * (1 / 10 ^ 5)) \<le> 100 * (?e1 * ?e2)" using p by (intro mult_left_mono) simp_all
    then show "100 * (1 / 10 ^ 5 * (1 / 10 ^ 5)) \<le> 100 * ?e1 * ?e2" by (simp only: mult.assoc)
    have "100 * (?e1 * ?e2) \<le> 100 * (1 * 1)" using q by (intro mult_left_mono) simp_all
    then show "100 * ?e1 * ?e2 \<le> 100 * (1 * 1)" by (simp only: mult.assoc)
  qed simp_all
  show ?thesis by (simp only: c f1 f2 m1 m2)
qed

lemma fdiv_zero_not_fin: "fdiv x (Fin 0) \<in> {PInf, NInf, NaN}"
  by (cases x) simp_all

lemma fmul_not_fin: "v \<in> {PInf, NInf, NaN} \<Longrightarrow> fmul v y \<in> {PInf, NInf, NaN}"
  by (cases y) (auto simp: scale_inf_def split: if_splits)

lemma fmul_zero: "fmul x (Fin 0) = (if is_finite x then Fin 0 else NaN)"
  by (cases x) (simp_all add: scale_inf_def)

lemma map_upt_neq: "f 0 \<noteq> g 0 \<Longrightarrow> map f [0..<100] \<noteq> map g [0..<100]"
proof -
  have up: "[0..<100] = 0 # [1..<100]" by (simp add: upt_conv_Cons)
  show "f 0 \<noteq> g 0 \<Longrightarrow> map f [0..<100] \<noteq> map g [0..<100]" unfolding up by simp
qed

lemma binary64_evals:
  "binary64 100 = Fin 100" "binary64 (200 / 3) = Fin (200 / 3)" "binary64 66 = Fin 66"
  "binary64 (3 / 2) = Fin (3 / 2)" "binary64 (99 / 100) = Fin (99 / 100)"
  by (rule binary64_mid; simp)+

lemma hydro_factor_nonzero:
  assumes "min_float \<le> \<bar>g\<bar>" and "\<bar>g\<bar> \<le> max_float"
  shows "np_over (hydraulic_flow [''hydraulic_gradient'' \<mapsto> g])
           (py_max (hydraulic_flow [''hydraulic_gradient'' \<mapsto> g])) = np_ones 100"
proof -
  have g: "g \<noteq> 0" using assms(1) float_bounds(4) by auto
  have "binary64 g = Fin g" using assms float_bounds(4) by (auto simp: binary64_def)
  then have "fdiv (binary64 g) (binary64 g) = Fin 1" using g by simp
  then show ?thesis by (simp only: hydro_factor np_ones_def map_replicate_trivial)
qed

lemma run_nonzero_gradient:
  assumes "min_float \<le> \<bar>g\<bar>" and "\<bar>g\<bar> \<le> max_float"
    and "min_float \<le> \<bar>g'\<bar>" and "\<bar>g'\<bar> \<le> max_float"
  shows "run_simulation mt n c0 g k kd rng = run_simulation mt n c0 g' k kd rng"
proof -
  have "hydro_block mt g c = hydro_block mt g' c" for c
    unfolding hydro_block_def Let_def
    by (simp only: hydro_factor_nonzero [OF assms(1,2)] hydro_factor_nonzero [OF assms(3,4)])
  then show ?thesis unfolding run_simulation_def Let_def by simp
qed


lemma thermal_point_bounds:
  assumes "i < 100"
  shows "1 \<le> 1 + 0.01 * (20 + real i * (40 / 99) - 20)"
    and "1 + 0.01 * (20 + real i * (40 / 99) - 20) \<le> 14 / 10"
proof -
  have "real i \<le> 99" using assms by simp
  then show "1 + 0.01 * (20 + real i * (40 / 99) - 20) \<le> 14 / 10" by simp
  show "1 \<le> 1 + 0.01 * (20 + real i * (40 / 99) - 20)" by simp
qed


section \<open>The "Basic" model\<close>

text \<open>
  Claim C1: for the "Basic" model the concentration at time \<open>t\<close> equals
  \<open>initial_conc * exp(-0.01 * t)\<close>. The script does not compute that: the test
  \<open>"B" in model_type\<close> of the biodegradation block is also true of the name "Basic", so
  the series is multiplied by \<open>exp(-k_decay * t)\<close> as well. With the default inputs
  (100 steps, initial concentration 100, decay rate 0.1) the value at \<open>t = 1\<close> is
  \<open>100 * exp(-0.01) * exp(-0.1)\<close>, which differs from \<open>100 * exp(-0.01)\<close>.
\<close>

theorem basic_run_decays_twice:
  "run_simulation ''Basic'' 100 100 1 0.1 0.5 rng =
     Inr \<lparr>Time = np_arange 100,
          Concentration = map (\<lambda>t. Fin (100 * exp (- 0.01 * real t) * exp (- 0.1 * real t))) [0..<100]\<rparr>
   \<and> Fin (100 * exp (- 0.01 * real 1) * exp (- 0.1 * real 1)) \<noteq> Fin (100 * exp (- 0.01 * real 1))"
proof
  have "map (\<lambda>i. fmul (fmul (binary64 100) (fexp (binary64 (- 0.01 * real i)))) (fexp (binary64 (- 0.1 * real i)))) [0..<100]
      = map (\<lambda>t. Fin (100 * exp (- 0.01 * real t) * exp (- 0.1 * real t))) [0..<100]"
    by (rule map_cong [OF refl], rule basic_point) simp
  then show "run_simulation ''Basic'' 100 100 1 0.1 0.5 rng =
     Inr \<lparr>Time = np_arange 100,
          Concentration = map (\<lambda>t. Fin (100 * exp (- 0.01 * real t) * exp (- 0.1 * real t))) [0..<100]\<rparr>"
    by (simp only: run_Basic_100)
  have "exp (- 0.1 :: real) \<noteq> 1" by simp
  then show "Fin (100 * exp (- 0.01 * real 1) * exp (- 0.1 * real 1)) \<noteq> Fin (100 * exp (- 0.01 * real 1))"
    by simp
qed

section \<open>Length of the series\<close>

text \<open>
  Claim C2: for every model type and every step count from 10 to 500 the run produces a
  series whose length is the step count. The placeholder arrays have the fixed length 100,
  so the run of the "Hydro" model with 50 steps and the default inputs raises
  \<open>ValueError\<close> at the multiplication by the flow array and produces no series.
  (Lemma \<open>run_mismatch\<close> above: the same holds for every model type and every step
  count other than 100.)
\<close>

theorem hydro_fifty_steps_raises:
  "run_simulation ''Hydro'' 50 100 1 0.1 0.5 rng = Inl ValueError"
  by (rule run_Hydro_mismatch) simp

section \<open>The hydraulic block and the model "HTBCMG"\<close>

text \<open>
  Claim C3: selecting "HTBCMG" applies the hydraulic-flow block to the concentration
  series. The block is guarded by \<open>"Hydro" in model_type\<close>, and "Hydro" is not a
  substring of "HTBCMG": the block leaves every series as it is, and the run with
  hydraulic gradient 0 equals the run with gradient 1, whereas for the model "Hydro",
  where the block is applied, these two runs differ.
\<close>

theorem htbcmg_skips_hydraulic_flow:
  "\<not> py_in ''Hydro'' ''HTBCMG''
   \<and> hydro_block ''HTBCMG'' hydraulic_gradient concentration = Inr concentration
   \<and> run_simulation ''HTBCMG'' n c0 0 k kd rng = run_simulation ''HTBCMG'' n c0 1 k kd rng
   \<and> run_simulation ''Hydro'' 100 c0 0 k kd rng \<noteq> run_simulation ''Hydro'' 100 c0 1 k kd rng"
proof -
  have off: "\<not> py_in ''Hydro'' ''HTBCMG''" by simp
  have blk: "hydro_block ''HTBCMG'' x c = Inr c" for x c
    by (rule blocks_off(1) [OF off])
  have same: "run_simulation ''HTBCMG'' n c0 0 k kd rng = run_simulation ''HTBCMG'' n c0 1 k kd rng"
    unfolding run_simulation_def Let_def by (simp only: blk)
  have "fmul (binary64 c0) (fdiv (binary64 0) (binary64 0)) = NaN" by simp
  moreover have "fmul (binary64 c0) (fdiv (binary64 1) (binary64 1)) \<noteq> NaN"
    by (simp add: binary64_idem)
  ultimately have "fmul (binary64 c0) (fdiv (binary64 0) (binary64 0))
      \<noteq> fmul (binary64 c0) (fdiv (binary64 1) (binary64 1))" by simp
  then have "map (\<lambda>i. fmul (binary64 c0) (fdiv (binary64 0) (binary64 0))) [0..<100]
      \<noteq> map (\<lambda>i. fmul (binary64 c0) (fdiv (binary64 1) (binary64 1))) [0..<100]"
    by (rule map_upt_neq)
  then have diff: "run_simulation ''Hydro'' 100 c0 0 k kd rng \<noteq> run_simulation ''Hydro'' 100 c0 1 k kd rng"
    by (simp only: run_Hydro_100) simp
  show ?thesis using off blk same diff by blast
qed

section \<open>Biodegradation\<close>

text \<open>
  Claim C4: for every model type whose name contains "B", the biodegradation block
  multiplies the concentration series elementwise by \<open>exp(-k * t)\<close>, where \<open>k\<close> is
  the configured decay rate and \<open>t\<close> the element index. The script builds the decay
  array as \<open>exp(-k * arange(100))\<close> whatever the step count. In the run of "Basic" with
  50 steps and the default inputs the Basic block leaves a series of 50 elements, and the
  biodegradation block raises \<open>ValueError\<close> on it instead of multiplying; the run produces
  no series. On a series of 100 elements the block multiplies as the claim says: with
  decay rate 0.1 the series of 100 twos becomes \<open>2 * exp(-0.1 * t)\<close>.
\<close>

theorem biodegradation_raises_on_fifty_steps:
  "\<not> isl (basic_block ''Basic'' (np_arange 50) (np_times (np_ones 50) (Fin 100)))
   \<and> bio_block ''Basic'' 0.1
        (projr (basic_block ''Basic'' (np_arange 50) (np_times (np_ones 50) (Fin 100)))) = Inl ValueError
   \<and> run_simulation ''Basic'' 50 100 1 0.1 0.5 (constant_noise 0) = Inl ValueError
   \<and> bio_block ''Basic'' 0.1 (np_times (np_ones 100) (Fin 2))
        = Inr (map (\<lambda>t. Fin (2 * exp (- 0.1 * real t))) [0..<100])"
proof -
  have b: "py_in ''B'' ''Basic''" by simp
  have blk: "basic_block ''Basic'' (np_arange 50) (np_times (np_ones 50) (Fin 100)) =
      Inr (map (\<lambda>i. fmul (binary64 100) (fexp (binary64 (- 0.01 * real i)))) [0..<50])"
    by (simp only: initial basic_block_basic)
  have one: "\<not> isl (basic_block ''Basic'' (np_arange 50) (np_times (np_ones 50) (Fin 100)))"
    by (simp only: blk sum.disc simp_thms)
  have "np_mul (map (\<lambda>i. fmul (binary64 100) (fexp (binary64 (- 0.01 * real i)))) [0..<50])
          (map (\<lambda>i. fexp (binary64 (- 0.1 * real i))) [0..<100]) = Inl ValueError"
    by (rule mul_mismatch) simp_all
  then have two: "bio_block ''Basic'' 0.1
        (projr (basic_block ''Basic'' (np_arange 50) (np_times (np_ones 50) (Fin 100)))) = Inl ValueError"
    by (simp only: blk sum.sel bio_block_as_mul [OF b])
  have three: "run_simulation ''Basic'' 50 100 1 0.1 0.5 (constant_noise 0) = Inl ValueError"
    by (rule run_Basic_mismatch) simp
  have pt: "fmul (binary64 2) (fexp (binary64 (- 0.1 * real i))) = Fin (2 * exp (- 0.1 * real i))"
    if "i < 100" for i
  proof -
    note d = decay_point [OF that, of "0.1"]
    have e: "1 / 10 ^ 5 \<le> exp (- 0.1 * real i)" "exp (- 0.1 * real i) \<le> 1" using d(2,3) by simp_all
    have f: "fexp (binary64 (- 0.1 * real i)) = Fin (exp (- 0.1 * real i))" using d(1) by simp
    have c: "binary64 2 = Fin 2" by (rule binary64_mid) simp_all
    have m: "fmul (Fin 2) (Fin (exp (- 0.1 * real i))) = Fin (2 * exp (- 0.1 * real i))"
    proof (rule fmul_range)
      show "2 * (1 / 10 ^ 5) \<le> 2 * exp (- 0.1 * real i)" using e(1) by (intro mult_left_mono) simp_all
      show "2 * exp (- 0.1 * real i) \<le> 2 * 1" using e(2) by (intro mult_left_mono) simp_all
    qed simp_all
    show ?thesis by (simp only: c f m)
  qed
  have "map (\<lambda>i. fmul (binary64 2) (fexp (binary64 (- 0.1 * real i)))) [0..<100]
      = map (\<lambda>t. Fin (2 * exp (- 0.1 * real t))) [0..<100]"
    by (rule map_cong [OF refl], rule pt) simp
  then have four: "bio_block ''Basic'' 0.1 (np_times (np_ones 100) (Fin 2))
        = Inr (map (\<lambda>t. Fin (2 * exp (- 0.1 * real t))) [0..<100])"
    by (simp only: initial bio_block_on [OF b])
  show ?thesis using one two three four by blast
qed

section \<open>Hydraulic gradient zero\<close>

text \<open>
  Claim C6: for the "Hydro" model with hydraulic gradient 0 the flow array is divided by
  its maximum, which is 0, with no guard, and the run reports no error: every quotient is
  \<open>0 / 0 = nan\<close>, the run goes on and returns a data frame whose 100 concentrations are
  all \<open>nan\<close>.
\<close>

theorem hydro_zero_gradient_unguarded:
  "py_max (hydraulic_flow [''hydraulic_gradient'' \<mapsto> 0]) = Fin 0
   \<and> np_over (hydraulic_flow [''hydraulic_gradient'' \<mapsto> 0])
        (py_max (hydraulic_flow [''hydraulic_gradient'' \<mapsto> 0])) = replicate 100 NaN
   \<and> run_simulation ''Hydro'' 100 c0 0 k kd rng =
        Inr \<lparr>Time = np_arange 100, Concentration = replicate 100 NaN\<rparr>"
proof -
  have "py_max (hydraulic_flow [''hydraulic_gradient'' \<mapsto> 0]) = Fin 0"
    by (simp only: hydraulic_flow_eq) (simp add: py_max_const)
  moreover have "run_simulation ''Hydro'' 100 c0 0 k kd rng =
        Inr \<lparr>Time = np_arange 100, Concentration = replicate 100 NaN\<rparr>"
    by (simp add: run_Hydro_100 map_replicate_trivial)
  ultimately show ?thesis using hydro_factor_zero by simp
qed

section \<open>Thermal block\<close>

text \<open>
  Claim C7: for every model type whose name contains "HT", the thermal block multiplies
  the \<open>i\<close>-th concentration by \<open>1 + 0.01 * (T_i - 20)\<close>, where \<open>T\<close> is the linear
  ramp of 100 points from 20 to 60. The ramp has 100 points whatever the step count. In
  the run of "HT" with 50 steps and the default inputs the block receives a series of 50
  elements and raises \<open>ValueError\<close> instead of multiplying; the run produces no series.
  On a series of 100 elements the block multiplies as the claim says: the series of 100
  fives becomes \<open>5 * (1 + 0.01 * (T_i - 20))\<close> with \<open>T_i = 20 + i * 40 / 99\<close>, which is 7
  at the last index.
\<close>

theorem thermal_raises_on_fifty_steps:
  "thermal_block ''HT'' (np_times (np_ones 50) (Fin 100)) = Inl ValueError
   \<and> run_simulation ''HT'' 50 100 1 0.1 0.5 (constant_noise 0) = Inl ValueError
   \<and> thermal_block ''HT'' (np_times (np_ones 100) (Fin 5))
        = Inr (map (\<lambda>i. Fin (5 * (1 + 0.01 * (20 + real i * (40 / 99) - 20)))) [0..<100])
   \<and> map (\<lambda>i. Fin (5 * (1 + 0.01 * (20 + real i * (40 / 99) - 20)))) [0..<100] ! 99 = Fin 7"
proof -
  have ht: "py_in ''HT'' ''HT''" by simp
  have one: "thermal_block ''HT'' (np_times (np_ones 50) (Fin 100)) = Inl ValueError"
    by (rule thermal_block_mismatch) (simp_all add: initial)
  have two: "run_simulation ''HT'' 50 100 1 0.1 0.5 (constant_noise 0) = Inl ValueError"
    by (rule run_HT_mismatch) simp_all
  have pt: "fmul (binary64 5) (Fin (1 + 0.01 * (20 + real i * (40 / 99) - 20)))
      = Fin (5 * (1 + 0.01 * (20 + real i * (40 / 99) - 20)))" if "i < 100" for i
  proof -
    note t = thermal_point_bounds [OF that]
    have c: "binary64 5 = Fin 5" by (rule binary64_mid) simp_all
    have m: "fmul (Fin 5) (Fin (1 + 0.01 * (20 + real i * (40 / 99) - 20)))
        = Fin (5 * (1 + 0.01 * (20 + real i * (40 / 99) - 20)))"
    proof (rule fmul_range)
      show "5 * 1 \<le> 5 * (1 + 0.01 * (20 + real i * (40 / 99) - 20))"
        using t(1) by (intro mult_left_mono) simp_all
      show "5 * (1 + 0.01 * (20 + real i * (40 / 99) - 20)) \<le> 5 * (14 / 10)"
        using t(2) by (intro mult_left_mono) simp_all
    qed simp_all
    show ?thesis by (simp only: c m)
  qed
  have "map (\<lambda>i. fmul (binary64 5) (Fin (1 + 0.01 * (20 + real i * (40 / 99) - 20)))) [0..<100]
      = map (\<lambda>i. Fin (5 * (1 + 0.01 * (20 + real i * (40 / 99) - 20)))) [0..<100]"
    by (rule map_cong [OF refl], rule pt) simp
  then have three: "thermal_block ''HT'' (np_times (np_ones 100) (Fin 5))
        = Inr (map (\<lambda>i. Fin (5 * (1 + 0.01 * (20 + real i * (40 / 99) - 20)))) [0..<100])"
    by (simp only: initial thermal_block_on [OF ht])
  have four: "map (\<lambda>i. Fin (5 * (1 + 0.01 * (20 + real i * (40 / 99) - 20)))) [0..<100] ! 99 = Fin 7"
    by simp
  show ?thesis using one two three four by blast
qed

section \<open>Dependence on the random samples\<close>

text \<open>
  Claim C8: for a model type whose name does not contain "M" (of the selector these are
  "Basic", "Hydro", "HT" and "HTB") the result of a run is determined by the six inputs:
  two runs that differ only in the samples of the random generator return the same result.
  For each model type of the selector that contains "M" there are two runs with the same
  six inputs and different samples whose results differ.
\<close>

theorem noise_only_matters_with_M:
  "(\<not> py_in ''M'' model_type \<longrightarrow>
      run_simulation model_type n c0 g k kd rng1 = run_simulation model_type n c0 g k kd rng2)
   \<and> filter (\<lambda>m. \<not> py_in ''M'' m) model_types = [''Basic'', ''Hydro'', ''HT'', ''HTB'']
   \<and> (\<forall>m \<in> set model_types. py_in ''M'' m \<longrightarrow>
        run_simulation m 100 100 1 0.1 0.5 (constant_noise 0)
          \<noteq> run_simulation m 100 100 1 0.1 0.5 (constant_noise 0.01))"
proof -
  have a: "\<not> py_in ''M'' model_type \<longrightarrow>
      run_simulation model_type n c0 g k kd rng1 = run_simulation model_type n c0 g k kd rng2"
  proof
    assume off: "\<not> py_in ''M'' model_type"
    have blk: "mech_block model_type r c = Inr c" for r c by (rule blocks_off(5) [OF off])
    show "run_simulation model_type n c0 g k kd rng1 = run_simulation model_type n c0 g k kd rng2"
      unfolding run_simulation_def Let_def by (simp only: blk)
  qed
  have b: "filter (\<lambda>m. \<not> py_in ''M'' m) model_types = [''Basic'', ''Hydro'', ''HT'', ''HTB'']"
    by (simp add: model_types_def)
  have c1: "run_simulation ''HTBCM'' 100 100 1 0.1 0.5 (constant_noise 0)
          \<noteq> run_simulation ''HTBCM'' 100 100 1 0.1 0.5 (constant_noise 0.01)"
    unfolding run_HTBCM_100 sum.inject dataframe.ext_inject
    by (intro notI, elim conjE, erule notE [OF map_upt_neq, rotated])
       (simp add: constant_noise_def binary64_evals)
  have c2: "run_simulation ''HTBCMG'' 100 100 1 0.1 0.5 (constant_noise 0)
          \<noteq> run_simulation ''HTBCMG'' 100 100 1 0.1 0.5 (constant_noise 0.01)"
    unfolding run_HTBCMG_100 sum.inject dataframe.ext_inject
    by (intro notI, elim conjE, erule notE [OF map_upt_neq, rotated])
       (simp add: constant_noise_def binary64_evals)
  have c: "\<forall>m \<in> set model_types. py_in ''M'' m \<longrightarrow>
        run_simulation m 100 100 1 0.1 0.5 (constant_noise 0)
          \<noteq> run_simulation m 100 100 1 0.1 0.5 (constant_noise 0.01)"
    using c1 c2 by (simp add: model_types_def)
  show ?thesis using a b c by blast
qed

theorem noise_only_matters_with_M_witness:
  "\<not> py_in ''M'' ''HTB'' \<and> ''HTBCM'' \<in> set model_types \<and> py_in ''M'' ''HTBCM''
   \<and> run_simulation ''HTB'' 100 100 1 0.1 0.5 (constant_noise 0)
       = run_simulation ''HTB'' 100 100 1 0.1 0.5 (constant_noise 0.01)
   \<and> run_simulation ''HTBCM'' 100 100 1 0.1 0.5 (constant_noise 0)
       \<noteq> run_simulation ''HTBCM'' 100 100 1 0.1 0.5 (constant_noise 0.01)"
proof -
  have h1: "\<not> py_in ''M'' ''HTB''" by simp
  have h2: "''HTBCM'' \<in> set model_types" by (simp add: model_types_def)
  have h3: "py_in ''M'' ''HTBCM''" by simp
  show ?thesis
    using h1 h2 h3 noise_only_matters_with_M [of "''HTB''" 100 100 1 "0.1" "0.5" "constant_noise 0" "constant_noise 0.01"]
    by blast
qed

section \<open>Nonzero hydraulic gradient\<close>

text \<open>
  Claim C9: for every nonzero hydraulic gradient the hydraulic block is the identity:
  the flow array divided by its maximum is the array of ones, and multiplying by it leaves
  the concentration series unchanged. The flow array has 100 elements whatever the step
  count. With gradient 2 the quotient is the array of 100 ones, but in the run of "Hydro"
  with 50 steps the block receives a series of 50 elements and raises \<open>ValueError\<close>
  instead of returning it unchanged; the run produces no series. On a series of 100
  elements the block is the identity. (Lemma \<open>run_nonzero_gradient\<close> above: the result
  of a run is the same for any two nonzero gradients.)
\<close>

theorem hydraulic_raises_on_fifty_steps:
  "np_over (hydraulic_flow [''hydraulic_gradient'' \<mapsto> 2])
     (py_max (hydraulic_flow [''hydraulic_gradient'' \<mapsto> 2])) = np_ones 100
   \<and> hydro_block ''Hydro'' 2 (np_times (np_ones 50) (Fin 100)) = Inl ValueError
   \<and> run_simulation ''Hydro'' 50 100 2 0.1 0.5 (constant_noise 0) = Inl ValueError
   \<and> hydro_block ''Hydro'' 2 (np_times (np_ones 100) (Fin 100)) = Inr (replicate 100 (Fin 100))"
proof -
  have hy: "py_in ''Hydro'' ''Hydro''" by simp
  have g: "min_float \<le> \<bar>2::real\<bar>" "\<bar>2::real\<bar> \<le> max_float"
    by (simp_all add: min_float_def max_float_def)
  have one: "np_over (hydraulic_flow [''hydraulic_gradient'' \<mapsto> 2])
     (py_max (hydraulic_flow [''hydraulic_gradient'' \<mapsto> 2])) = np_ones 100"
    by (rule hydro_factor_nonzero [OF g])
  have two: "hydro_block ''Hydro'' 2 (np_times (np_ones 50) (Fin 100)) = Inl ValueError"
    by (rule hydro_block_mismatch) (simp_all add: initial)
  have three: "run_simulation ''Hydro'' 50 100 2 0.1 0.5 (constant_noise 0) = Inl ValueError"
    by (rule run_Hydro_mismatch) simp
  have c: "binary64 100 = Fin 100" "binary64 2 = Fin 2" by (rule binary64_mid; simp)+
  have "hydro_block ''Hydro'' 2 (map (\<lambda>i. binary64 100) [0..<100])
      = Inr (map (\<lambda>i. fmul (binary64 100) (fdiv (binary64 2) (binary64 2))) [0..<100])"
    by (rule hydro_block_on [OF hy])
  then have four: "hydro_block ''Hydro'' 2 (np_times (np_ones 100) (Fin 100)) = Inr (replicate 100 (Fin 100))"
    by (simp add: initial c map_replicate_trivial)
  show ?thesis using one two three four by blast
qed

section \<open>Last element under the gas block\<close>

text \<open>
  Claim C10 says that for a model type containing "G" and 100 steps the last concentration
  is exactly 0 whatever the other inputs are. With \<open>Kd = -1\<close> the sorption block divides
  by \<open>1 + Kd = 0\<close>, the last concentration becomes infinite, and the gas factor 0 turns
  it into \<open>nan\<close>.
\<close>

theorem gas_last_element_counterexample:
  "\<not> isl (run_simulation ''HTBCMG'' 100 100 1 0.1 (- 1) (constant_noise 0))
   \<and> last (Concentration (projr (run_simulation ''HTBCMG'' 100 100 1 0.1 (- 1) (constant_noise 0)))) = NaN
   \<and> last (Concentration (projr (run_simulation ''HTBCMG'' 100 100 1 0.1 (- 1) (constant_noise 0)))) \<noteq> Fin 0"
proof -
  let ?x = "fmul (fmul (binary64 100) (Fin (1 + 0.01 * (20 + real (99::nat) * (40 / 99) - 20))))
              (fexp (binary64 (- 0.1 * real (99::nat))))"
  let ?z = "binary64 (1 - \<bar>constant_noise 0 99\<bar>)"
  have "fdiv ?x (Fin 0) \<in> {PInf, NInf, NaN}" by (rule fdiv_zero_not_fin)
  then have "fmul (fdiv ?x (Fin 0)) ?z \<in> {PInf, NInf, NaN}" by (rule fmul_not_fin)
  then have "\<not> is_finite (fmul (fdiv ?x (Fin 0)) ?z)" by auto
  then have n: "fmul (fmul (fdiv ?x (Fin 0)) ?z) (Fin 0) = NaN" by (simp only: fmul_zero if_False)
  have k: "binary64 (1 + - 1) = Fin 0" by simp
  have g: "Fin (1 - real (99::nat) / 99) = Fin 0" by simp
  have "last (Concentration (projr (run_simulation ''HTBCMG'' 100 100 1 0.1 (- 1) (constant_noise 0)))) = NaN"
    by (simp only: run_HTBCMG_100 sum.sel dataframe.select_convs last_upt_100 k g n)
  then show ?thesis by (simp add: run_HTBCMG_100)
qed

text \<open>
  Claim C10, amended: for the model type of the selector that contains "G" and 100 steps,
  the run returns 100 concentrations, and the last one is the value that reaches the gas
  block at index 99 multiplied by 0. That value is the last concentration of the model
  "HTBCM" for the same inputs and samples. The last concentration is exactly 0 when that
  value is finite and \<open>nan\<close> when it is infinite or \<open>nan\<close>; it is \<open>nan\<close> whenever
  \<open>Kd = -1\<close>.
\<close>

theorem gas_last_element:
  assumes "model_type \<in> set model_types" and "py_in ''G'' model_type"
  shows "\<not> isl (run_simulation model_type 100 c0 g k kd rng)
         \<and> length (Concentration (projr (run_simulation model_type 100 c0 g k kd rng))) = 100
         \<and> \<not> isl (run_simulation ''HTBCM'' 100 c0 g k kd rng)
         \<and> last (Concentration (projr (run_simulation model_type 100 c0 g k kd rng)))
             = (if is_finite (last (Concentration (projr (run_simulation ''HTBCM'' 100 c0 g k kd rng))))
                then Fin 0 else NaN)
         \<and> (kd = - 1 \<longrightarrow> last (Concentration (projr (run_simulation model_type 100 c0 g k kd rng))) = NaN)"
proof -
  have mt: "model_type = ''HTBCMG''" using assms by (auto simp: model_types_def)
  let ?y = "fmul (fmul (binary64 c0) (Fin (1 + 0.01 * (20 + real (99::nat) * (40 / 99) - 20))))
              (fexp (binary64 (- k * real (99::nat))))"
  let ?z = "binary64 (1 - \<bar>rng 99\<bar>)"
  let ?x = "fmul (fdiv ?y (binary64 (1 + kd))) ?z"
  have g: "Fin (1 - real (99::nat) / 99) = Fin 0" by simp
  have lastG: "last (Concentration (projr (run_simulation model_type 100 c0 g k kd rng))) = fmul ?x (Fin 0)"
    by (simp only: mt run_HTBCMG_100 sum.sel dataframe.select_convs last_upt_100 g)
  have lastM: "last (Concentration (projr (run_simulation ''HTBCM'' 100 c0 g k kd rng))) = ?x"
    by (simp only: run_HTBCM_100 sum.sel dataframe.select_convs last_upt_100)
  have a: "\<not> isl (run_simulation model_type 100 c0 g k kd rng)"
    by (simp only: mt run_HTBCMG_100 sum.disc simp_thms)
  have b: "length (Concentration (projr (run_simulation model_type 100 c0 g k kd rng))) = 100"
    by (simp only: mt run_HTBCMG_100 sum.sel dataframe.select_convs) simp
  have c: "\<not> isl (run_simulation ''HTBCM'' 100 c0 g k kd rng)"
    by (simp only: run_HTBCM_100 sum.disc simp_thms)
  have d: "last (Concentration (projr (run_simulation model_type 100 c0 g k kd rng)))
             = (if is_finite (last (Concentration (projr (run_simulation ''HTBCM'' 100 c0 g k kd rng))))
                then Fin 0 else NaN)"
    by (simp only: lastG lastM fmul_zero)
  have e: "kd = - 1 \<longrightarrow> last (Concentration (projr (run_simulation model_type 100 c0 g k kd rng))) = NaN"
  proof
    assume kd: "kd = - 1"
    have z: "binary64 (1 + kd) = Fin 0" unfolding kd by simp
    have "fdiv ?y (Fin 0) \<in> {PInf, NInf, NaN}" by (rule fdiv_zero_not_fin)
    then have "fmul (fdiv ?y (Fin 0)) ?z \<in> {PInf, NInf, NaN}" by (rule fmul_not_fin)
    then have "\<not> is_finite ?x" unfolding z by auto
    then show "last (Concentration (projr (run_simulation model_type 100 c0 g k kd rng))) = NaN"
      by (simp only: lastG fmul_zero if_False)
  qed
  show ?thesis using a b c d e by blast
qed

theorem gas_last_element_witness:
  "''HTBCMG'' \<in> set model_types \<and> py_in ''G'' ''HTBCMG''
   \<and> last (Concentration (projr (run_simulation ''HTBCM'' 100 100 1 0.1 0.5 (constant_noise 0.01))))
       = Fin (100 * (14 / 10) * exp (- 0.1 * real (99::nat)) / (3 / 2) * (99 / 100))
   \<and> last (Concentration (projr (run_simulation ''HTBCMG'' 100 100 1 0.1 0.5 (constant_noise 0.01)))) = Fin 0"
proof -
  have h1: "''HTBCMG'' \<in> set model_types" by (simp add: model_types_def)
  have h2: "py_in ''G'' ''HTBCMG''" by simp
  let ?e = "exp (- 0.1 * real (99::nat))"
  note d = decay_point [of 99 "0.1"]
  have e: "1 / 10 ^ 5 \<le> ?e" "?e \<le> 1" using d(2,3) by simp_all
  have f: "fexp (binary64 (- 0.1 * real (99::nat))) = Fin ?e" using d(1) by simp
  have t: "fmul (binary64 100) (Fin (1 + 0.01 * (20 + real (99::nat) * (40 / 99) - 20))) = Fin (100 * (14 / 10))"
    by (simp add: binary64_evals binary64_mid)
  have m1: "fmul (Fin (100 * (14 / 10))) (Fin ?e) = Fin (100 * (14 / 10) * ?e)"
  proof (rule fmul_range)
    show "100 * (14 / 10) * (1 / 10 ^ 5) \<le> 100 * (14 / 10) * ?e" using e(1) by (intro mult_left_mono) simp_all
    show "100 * (14 / 10) * ?e \<le> 100 * (14 / 10) * 1" using e(2) by (intro mult_left_mono) simp_all
  qed simp_all
  have kd: "binary64 (1 + 0.5) = Fin (3 / 2)" by (simp add: binary64_evals)
  have m2: "fdiv (Fin (100 * (14 / 10) * ?e)) (Fin (3 / 2)) = Fin (100 * (14 / 10) * ?e / (3 / 2))"
  proof (rule fdiv_range)
    show "100 * (14 / 10) * (1 / 10 ^ 5) / (3 / 2) \<le> 100 * (14 / 10) * ?e / (3 / 2)"
      using e(1) by (intro divide_right_mono mult_left_mono) simp_all
    show "100 * (14 / 10) * ?e / (3 / 2) \<le> 100 * (14 / 10) * 1 / (3 / 2)"
      using e(2) by (intro divide_right_mono mult_left_mono) simp_all
  qed simp_all
  have z: "binary64 (1 - \<bar>constant_noise 0.01 99\<bar>) = Fin (99 / 100)"
    by (simp add: constant_noise_def binary64_evals)
  have m3: "fmul (Fin (100 * (14 / 10) * ?e / (3 / 2))) (Fin (99 / 100))
      = Fin (100 * (14 / 10) * ?e / (3 / 2) * (99 / 100))"
  proof (rule fmul_range)
    show "100 * (14 / 10) * (1 / 10 ^ 5) / (3 / 2) * (99 / 100) \<le> 100 * (14 / 10) * ?e / (3 / 2) * (99 / 100)"
      using e(1) by (intro mult_right_mono divide_right_mono mult_left_mono) simp_all
    show "100 * (14 / 10) * ?e / (3 / 2) * (99 / 100) \<le> 100 * (14 / 10) * 1 / (3 / 2) * (99 / 100)"
      using e(2) by (intro mult_right_mono divide_right_mono mult_left_mono) simp_all
  qed simp_all
  have lastM: "last (Concentration (projr (run_simulation ''HTBCM'' 100 100 1 0.1 0.5 (constant_noise 0.01))))
       = Fin (100 * (14 / 10) * ?e / (3 / 2) * (99 / 100))"
    by (simp only: run_HTBCM_100 sum.sel dataframe.select_convs last_upt_100 t f m1 kd m2 z m3)
  have fin: "is_finite (last (Concentration (projr (run_simulation ''HTBCM'' 100 100 1 0.1 0.5 (constant_noise 0.01)))))"
    by (simp only: lastM is_finite.simps)
  show ?thesis
    using h1 h2 lastM fin gas_last_element [OF h1 h2, of 100 1 "0.1" "0.5" "constant_noise 0.01"]
    by simp
qed

text \<open>
  A decay rate of -10 is another input for which the value that reaches the gas block is
  infinite: \<open>exp(10 * 99)\<close> overflows.
\<close>

lemma gas_last_element_overflow:
  "last (Concentration (projr (run_simulation ''HTBCMG'' 100 100 1 (- 10) 0.5 (constant_noise 0)))) = NaN"
proof -
  have b: "binary64 (- (- 10) * real (99::nat)) = Fin 990" by (simp add: binary64_mid)
  have t: "fmul (binary64 100) (Fin (1 + 0.01 * (20 + real (99::nat) * (40 / 99) - 20))) = Fin 140"
    by (simp add: binary64_evals binary64_mid)
  show ?thesis
    by (simp only: run_HTBCMG_100 sum.sel dataframe.select_convs last_upt_100 b t)
       (simp add: scale_inf_def binary64_evals constant_noise_def)
qed

end
